theory Spec2Isabelle
  imports Main
begin

section \<open>The credential engine of users.go\<close>

text \<open>
  A shallow embedding of \<^verbatim>\<open>users.go\<close>: the relational store is a record of four tables
  (lists of rows, in insertion order), every method of \<^verbatim>\<open>Users\<close> is a function from the
  world before the call to a result and the world after it, and Go's \<^verbatim>\<open>error\<close> return is
  the left summand of the result.
\<close>

subsection \<open>Errors\<close>

datatype error =
    ErrEmailTaken
  | ErrUsernameTaken
  | ErrEmailInvalid
  | ErrEmailRequired
  | ErrUsernameRequired
  | ErrUsernameOrEmailRequired
  | ErrPasswordRequired
  | ErrInvalidResetToken
  | ErrPasswordInvalid
  | ErrInvalid string
  | ErrNotAuth
  | ErrTokenExpired
  | ErrNotFound
  | RateLimitExceededError
  | sql_ErrNoRows
  | StoreError nat
  | HashError
  | NilPointerPanic nat

text \<open>
  \<open>sql_ErrNoRows\<close> is \<^verbatim>\<open>sql.ErrNoRows\<close>; \<open>StoreError l\<close> is any other error returned by the
  \<^verbatim>\<open>database/sql\<close> call at source line \<open>l\<close>;
  \<open>NilPointerPanic l\<close> is the run-time panic of a nil dereference at line \<open>l\<close>;
  \<open>HashError\<close> is an error of \<^verbatim>\<open>bcrypt.GenerateFromPassword\<close>.
\<close>

subsection \<open>Machine integers\<close>

text \<open>Go's \<^verbatim>\<open>int64\<close>: an integer with the two's-complement wrap-around written out.\<close>

definition i64 :: "int \<Rightarrow> int" where
  "i64 x = (x + 2 ^ 63) mod 2 ^ 64 - 2 ^ 63"

definition in_int64 :: "int \<Rightarrow> bool" where
  "in_int64 x \<longleftrightarrow> - (2 ^ 63) \<le> x \<and> x < 2 ^ 63"

subsection \<open>Configuration, parameters and results\<close>

text \<open>
  \<open>PassGen\<close> is a random generator: its first argument is the number of random draws made
  so far, its second the requested length. A nil function or pointer is \<open>None\<close>.
\<close>

record UserOpts =
  AuthAttempts :: int
  AuthLockDuration :: int
  PassGen :: "(nat \<Rightarrow> int \<Rightarrow> string) option"
  UsernameIsEmail :: "bool option"
  ResetTokenExpiry :: int

record User =
  User_Id :: int
  User_Uid :: string
  User_Username :: string
  User_Email :: string
  User_FirstName :: string
  User_LastName :: string
  User_Phone :: string
  User_OrgId :: int
  User_OrgName :: string
  User_Updated :: int
  User_Created :: int
  User_Role :: int
  User_Passive :: bool
  User_Suspended :: bool

record Claims =
  Claims_Role :: int
  Claims_OrgId :: int
  Claims_OrgSuspended :: bool

type_synonym UserWithClaims = "User \<times> Claims"

record SignUpParams =
  SignUp_Username :: string
  SignUp_InviteCode :: string
  SignUp_Password :: string
  SignUp_Email :: string
  SignUp_FirstName :: string
  SignUp_LastName :: string
  SignUp_Phone :: string
  SignUp_OrgId :: int
  SignUp_Role :: int
  SignUp_Passive :: bool

record ExistsParams =
  Exists_Email :: string
  Exists_Username :: string

record SignInParams =
  SignIn_Email :: string
  SignIn_Username :: string
  SignIn_Password :: string

record ResetPasswordParams =
  Reset_Email :: string

text \<open>
  A \<^verbatim>\<open>CustomValidator\<close> is a nullable function without arguments: \<open>None\<close> is the nil
  validator, \<open>Some r\<close> a validator that returns \<open>r\<close> (\<open>None\<close> for a nil error).
\<close>

record ChangePasswordParams =
  Change_Email :: string
  Change_ExistingPassword :: string
  Change_NewPassword :: string
  Change_ResetToken :: string
  Change_CustomValidator :: "error option option"

subsection \<open>The store\<close>

text \<open>
  The columns the queries of \<^verbatim>\<open>users.go\<close> read or write. \<open>u_passive\<close> is nullable
  (it is scanned into a \<^verbatim>\<open>sql.NullBool\<close>).
\<close>

record user_row =
  u_id :: int
  u_username :: string
  u_uid :: string
  u_email :: string
  u_first_name :: string
  u_last_name :: string
  u_phone :: string
  u_password_hash :: string
  u_org_id :: int
  u_updated :: int
  u_created :: int
  u_deleted :: int
  u_role :: int
  u_suspended :: int
  u_invite_code :: string
  u_passive :: "bool option"

record org_row =
  o_id :: int
  o_name :: string
  o_suspended :: bool

record attempt_row =
  pa_username :: string
  pa_created :: int

record reset_row =
  pr_user_id :: int
  pr_email :: string
  pr_reset_token :: string
  pr_created :: int
  pr_deleted :: int

record store =
  users :: "user_row list"
  orgs :: "org_row list"
  password_attempts :: "attempt_row list"
  password_resets :: "reset_row list"

text \<open>
  The world threads the store together with the effects that are not store writes: the
  number of clock readings and of random draws made so far, and the log of the
  \<^verbatim>\<open>bcrypt.CompareHashAndPassword\<close> calls (hash, password) performed.
\<close>

record world =
  db :: store
  ticks :: nat
  draws :: nat
  compared :: "(string \<times> string) list"

subsection \<open>The environment\<close>

text \<open>
  What the source takes from outside the repository:
  \<^item> \<open>coll\<close>: the store's comparison \<^verbatim>\<open>=\<close> on text columns (its collation; the schema is
    not part of the source). \<open>coll e column argument\<close>.
  \<^item> \<open>clk\<close>: the \<open>n\<close>-th reading of \<^verbatim>\<open>time.Now()\<close>, as an instant in epoch milliseconds.
  \<^item> \<open>uuid_NewV4\<close>, \<open>RandStringBytesMaskImprSrc\<close>, \<open>bcrypt_GenerateFromPassword\<close>: random
    sources, indexed by the number of draws made so far; a hash of \<open>None\<close> is an error.
  \<^item> \<open>bcrypt_CompareHashAndPassword e hash password\<close>: true when the call returns nil.
  \<^item> \<open>govalidator_IsEmail\<close>: the email syntax check.
  \<^item> \<open>strings_ToLower\<close>: Go's \<^verbatim>\<open>strings.ToLower\<close>, the Unicode lower-casing of a string.

  A set \<open>F\<close> of source line numbers, given to each operation, names the store calls of
  the source that return an error during that operation.
\<close>

record env =
  coll :: "string \<Rightarrow> string \<Rightarrow> bool"
  clk :: "nat \<Rightarrow> int"
  uuid_NewV4 :: "nat \<Rightarrow> string"
  RandStringBytesMaskImprSrc :: "nat \<Rightarrow> int \<Rightarrow> string"
  bcrypt_GenerateFromPassword :: "nat \<Rightarrow> string \<Rightarrow> string option"
  bcrypt_CompareHashAndPassword :: "string \<Rightarrow> string \<Rightarrow> bool"
  govalidator_IsEmail :: "string \<Rightarrow> bool"
  strings_ToLower :: "string \<Rightarrow> string"

definition time_Now :: "env \<Rightarrow> world \<Rightarrow> int \<times> world" where
  "time_Now e w = (clk e (ticks w), w\<lparr>ticks := Suc (ticks w)\<rparr>)"

text \<open>
  Modelled from the spec: \<^verbatim>\<open>Milliseconds\<close> is not under src/; the spec has the created
  and updated timestamps in epoch milliseconds. \<^verbatim>\<open>Unix\<close> is the instant in whole seconds.
\<close>

definition Milliseconds :: "int \<Rightarrow> int" where
  "Milliseconds t = t"

definition Unix :: "int \<Rightarrow> int" where
  "Unix t = t div 1000"

subsection \<open>NewUsers\<close>

text \<open>
  The \<^verbatim>\<open>Users\<close> value is its embedded \<^verbatim>\<open>UserOpts\<close>: the store handle is the world
  that every method takes.
\<close>

definition NewUsers :: "env \<Rightarrow> UserOpts \<Rightarrow> UserOpts" where
  "NewUsers e opt =
     (let opt1 = (if AuthLockDuration opt = 0 then opt\<lparr>AuthLockDuration := 5 * 60\<rparr> else opt);
          opt2 = (if ResetTokenExpiry opt1 = 0
                  then opt1\<lparr>ResetTokenExpiry := 24 * 60 * 60 * 1000\<rparr> else opt1);
          opt3 = (if PassGen opt2 = None
                  then opt2\<lparr>PassGen := Some (RandStringBytesMaskImprSrc e)\<rparr> else opt2);
          opt4 = (if UsernameIsEmail opt3 = None
                  then opt3\<lparr>UsernameIsEmail := Some True\<rparr> else opt3)
      in opt4)"

subsection \<open>Reading one row\<close>

text \<open>
  \<^verbatim>\<open>QueryRow(...).Scan(...)\<close> at source line \<open>l\<close> on the first row of a result, if any: the
  row, \<^verbatim>\<open>sql.ErrNoRows\<close> when the result is empty, or the store's error.
\<close>

definition QueryRow_Scan :: "nat \<Rightarrow> nat set \<Rightarrow> 'a option \<Rightarrow> error + 'a" where
  "QueryRow_Scan l F row =
     (if l \<in> F then Inl (StoreError l)
      else case row of None \<Rightarrow> Inl sql_ErrNoRows | Some r \<Rightarrow> Inr r)"

text \<open>
  Modelled from the spec: \<^verbatim>\<open>CheckNotFound\<close> is not under src/. The spec has a not-found
  error for entity lookups, and the sign-in maps the lookup's not-found to its generic
  error: the no-rows error becomes \<open>ErrNotFound\<close>, any other error is passed on. (A nil
  error is the right summand of a result and never reaches this function.)
\<close>

definition CheckNotFound :: "error \<Rightarrow> error" where
  "CheckNotFound err = (if err = sql_ErrNoRows then ErrNotFound else err)"

subsection \<open>isLocked\<close>

definition attempts_since :: "env \<Rightarrow> int \<Rightarrow> string \<Rightarrow> attempt_row list \<Rightarrow> int" where
  "attempts_since e since username rows =
     int (length (filter (\<lambda>a. pa_created a > since \<and> coll e (pa_username a) username) rows))"

definition isLocked :: "env \<Rightarrow> UserOpts \<Rightarrow> nat set \<Rightarrow> string \<Rightarrow> world \<Rightarrow> bool \<times> world" where
  "isLocked e us F username w =
     (if 346 \<in> F then (True, w)
      else
        let (t1, w1) = time_Now e w in
        if 351 \<in> F then (True, w1)
        else
          let w2 = w1\<lparr>db := (db w1)\<lparr>password_attempts :=
                      password_attempts (db w1) @
                        [\<lparr>pa_username = username, pa_created = Milliseconds t1\<rparr>]\<rparr>\<rparr>;
              (t2, w3) = time_Now e w2;
              since = i64 (i64 (Unix t2 - AuthLockDuration us) * 1000)
          in if 361 \<in> F then (True, w3)
             else (attempts_since e since username (password_attempts (db w3)) > AuthAttempts us,
                   w3))"

subsection \<open>GetByUsername\<close>

text \<open>
  The \<^verbatim>\<open>WHERE\<close> clause of the lookup, with SQL's precedence (\<^verbatim>\<open>AND\<close> binds tighter than
  \<^verbatim>\<open>OR\<close>): \<^verbatim>\<open>u.email = ? OR (u.username = ? AND u.deleted = 0)\<close>.
\<close>

definition GetByUsername_where :: "env \<Rightarrow> string \<Rightarrow> user_row \<Rightarrow> bool" where
  "GetByUsername_where e username u \<longleftrightarrow>
     coll e (u_email u) username \<or> (coll e (u_username u) username \<and> u_deleted u = 0)"

text \<open>\<^verbatim>\<open>COALESCE(o.suspended, 0)\<close> over the left join with \<^verbatim>\<open>orgs\<close>.\<close>

definition org_suspended :: "store \<Rightarrow> int \<Rightarrow> bool" where
  "org_suspended s oid =
     (case List.find (\<lambda>r. o_id r = oid) (orgs s) of None \<Rightarrow> False | Some r \<Rightarrow> o_suspended r)"

definition scan_User :: "user_row \<Rightarrow> User" where
  "scan_User r =
     \<lparr>User_Id = u_id r, User_Uid = u_uid r, User_Username = u_username r,
      User_Email = u_email r, User_FirstName = u_first_name r, User_LastName = u_last_name r,
      User_Phone = u_phone r, User_OrgId = u_org_id r, User_OrgName = [],
      User_Updated = u_updated r, User_Created = u_created r, User_Role = u_role r,
      User_Passive = (case u_passive r of None \<Rightarrow> False | Some b \<Rightarrow> b),
      User_Suspended = (u_suspended r > 0)\<rparr>"

definition GetByUsername ::
  "env \<Rightarrow> nat set \<Rightarrow> store \<Rightarrow> string \<Rightarrow> error + (UserWithClaims \<times> string)" where
  "GetByUsername e F s username =
     (if 265 \<in> F then Inl (StoreError 265)
      else case QueryRow_Scan 275 F (List.find (GetByUsername_where e username) (users s)) of
             Inl err \<Rightarrow> Inl (CheckNotFound err)
           | Inr r \<Rightarrow>
               let u = scan_User r;
                   c = \<lparr>Claims_Role = User_Role u, Claims_OrgId = User_OrgId u,
                        Claims_OrgSuspended = org_suspended s (u_org_id r)\<rparr>
               in Inr ((u, c), u_password_hash r))"

subsection \<open>SignIn\<close>

text \<open>Lines 309 to 316: the identifier that the sign-in uses.\<close>

definition SignIn_identifier :: "UserOpts \<Rightarrow> SignInParams \<Rightarrow> error + string" where
  "SignIn_identifier us p =
     (if SignIn_Email p \<noteq> []
      then (case UsernameIsEmail us of
              None \<Rightarrow> Inl (NilPointerPanic 310)
            | Some b \<Rightarrow>
                let username = (if b then SignIn_Email p else SignIn_Username p)
                in Inr (if username = [] then SignIn_Email p else username))
      else Inr (SignIn_Username p))"

definition SignIn ::
  "env \<Rightarrow> UserOpts \<Rightarrow> nat set \<Rightarrow> SignInParams \<Rightarrow> world \<Rightarrow> (error + UserWithClaims) \<times> world" where
  "SignIn e us F p w =
     (case SignIn_identifier us p of
        Inl err \<Rightarrow> (Inl err, w)
      | Inr username \<Rightarrow>
          (case isLocked e us F username w of
             (True, w1) \<Rightarrow> (Inl RateLimitExceededError, w1)
           | (False, w1) \<Rightarrow>
               (case GetByUsername e F (db w1) username of
                  Inl err \<Rightarrow> (if err = ErrNotFound then (Inl ErrNotAuth, w1) else (Inl err, w1))
                | Inr (u, hash) \<Rightarrow>
                    if User_Suspended (fst u) \<or> Claims_OrgSuspended (snd u) \<or> User_Passive (fst u)
                    then (Inl ErrNotAuth, snd (isLocked e us F username w1))
                    else
                      let w2 = w1\<lparr>compared := compared w1 @ [(hash, SignIn_Password p)]\<rparr>
                      in if bcrypt_CompareHashAndPassword e hash (SignIn_Password p)
                         then (Inr u, w2)
                         else (Inl ErrNotAuth, w2))))"

subsection \<open>exists\<close>

text \<open>
  The \<^verbatim>\<open>WHERE\<close> clause of the uniqueness query, with SQL's precedence:
  \<^verbatim>\<open>(deleted = 0 AND username = ?) OR email = ?\<close>.
\<close>

definition exists_where :: "env \<Rightarrow> ExistsParams \<Rightarrow> user_row \<Rightarrow> bool" where
  "exists_where e p u \<longleftrightarrow>
     (u_deleted u = 0 \<and> coll e (u_username u) (Exists_Username p)) \<or>
     coll e (u_email u) (Exists_Email p)"

text \<open>The pair is Go's \<^verbatim>\<open>(bool, error)\<close>; \<open>None\<close> is the nil error.\<close>

definition exists :: "env \<Rightarrow> nat set \<Rightarrow> store \<Rightarrow> ExistsParams \<Rightarrow> bool \<times> error option" where
  "exists e F tx p =
     (if 152 \<in> F then (True, Some (StoreError 152))
      else case QueryRow_Scan 158 F (List.find (exists_where e p) (users tx)) of
             Inl err \<Rightarrow> if err = sql_ErrNoRows then (False, None) else (True, Some err)
           | Inr r \<Rightarrow>
               if strings_ToLower e (u_email r) = strings_ToLower e (Exists_Email p)
               then (True, Some ErrEmailTaken)
               else if strings_ToLower e (u_username r) = strings_ToLower e (Exists_Username p)
                    then (True, Some ErrUsernameTaken)
               else (False, None))"

subsection \<open>Transactions and hashing\<close>

text \<open>
  Modelled from the spec: \<^verbatim>\<open>Tx\<close> is not under src/. The spec's \<^verbatim>\<open>withTransaction(fn)\<close>
  executes \<^verbatim>\<open>fn\<close> atomically, rolling back on any error returned by \<^verbatim>\<open>fn\<close> and committing
  otherwise. A rollback restores the store; clock readings and random draws stay made.
\<close>

definition Tx :: "world \<Rightarrow> (world \<Rightarrow> (error + 'a) \<times> world) \<Rightarrow> (error + 'a) \<times> world" where
  "Tx w fn =
     (case fn w of
        (Inl err, w') \<Rightarrow> (Inl err, w'\<lparr>db := db w\<rparr>)
      | (Inr x, w') \<Rightarrow> (Inr x, w'))"

definition hashPassword :: "env \<Rightarrow> string \<Rightarrow> world \<Rightarrow> (error + string) \<times> world" where
  "hashPassword e password w =
     (case bcrypt_GenerateFromPassword e (draws w) password of
        None \<Rightarrow> (Inl HashError, w\<lparr>draws := Suc (draws w)\<rparr>)
      | Some hash \<Rightarrow> (Inr hash, w\<lparr>draws := Suc (draws w)\<rparr>))"

subsection \<open>ResetPassword\<close>

text \<open>\<^verbatim>\<open>UPDATE password_resets set deleted = 1 where email = ?\<close>\<close>

definition revoke_resets :: "env \<Rightarrow> string \<Rightarrow> world \<Rightarrow> world" where
  "revoke_resets e email w =
     w\<lparr>db := (db w)\<lparr>password_resets :=
          map (\<lambda>r. if coll e (pr_email r) email then r\<lparr>pr_deleted := 1\<rparr> else r)
            (password_resets (db w))\<rparr>\<rparr>"

definition ResetPassword_tx ::
  "env \<Rightarrow> nat set \<Rightarrow> ResetPasswordParams \<Rightarrow> User \<Rightarrow> string \<Rightarrow> world \<Rightarrow> (error + unit) \<times> world" where
  "ResetPassword_tx e F p u token tx =
     (if 590 \<in> F then (Inl (StoreError 590), tx)
      else
        let tx1 = revoke_resets e (Reset_Email p) tx in
        if 594 \<in> F then (Inl (StoreError 594), tx1)
        else
          let (t, tx2) = time_Now e tx1 in
          if 598 \<in> F then (Inl (StoreError 598), tx2)
          else (Inr (),
                tx2\<lparr>db := (db tx2)\<lparr>password_resets :=
                   password_resets (db tx2) @
                     [\<lparr>pr_user_id = User_Id u, pr_email = User_Email u, pr_reset_token = token,
                       pr_created = Milliseconds t, pr_deleted = 0\<rparr>]\<rparr>\<rparr>))"

definition ResetPassword ::
  "env \<Rightarrow> UserOpts \<Rightarrow> nat set \<Rightarrow> ResetPasswordParams \<Rightarrow> world \<Rightarrow> (error + string) \<times> world" where
  "ResetPassword e us F p w =
     (case GetByUsername e F (db w) (Reset_Email p) of
        Inl err \<Rightarrow> (Inl err, w)
      | Inr (u, hash) \<Rightarrow>
          if User_Passive (fst u) then (Inl ErrNotAuth, w)
          else
            (case PassGen us of
               None \<Rightarrow> (Inl (NilPointerPanic 588), w)
             | Some gen \<Rightarrow>
                 let token = gen (draws w) 128;
                     w1 = w\<lparr>draws := Suc (draws w)\<rparr>
                 in (case Tx w1 (ResetPassword_tx e F p (fst u) token) of
                       (Inl err, w2) \<Rightarrow> (Inl err, w2)
                     | (Inr x, w2) \<Rightarrow> (Inr token, w2))))"

subsection \<open>SignUp\<close>

text \<open>The id that the store assigns to an inserted row (\<^verbatim>\<open>LastInsertId\<close>).\<close>

definition next_id :: "user_row list \<Rightarrow> int" where
  "next_id rows = fold (\<lambda>r m. max (u_id r) m) rows 0 + 1"

text \<open>
  The closure given to \<^verbatim>\<open>Tx\<close> at line 184. Its result is the value of the captured
  variables \<^verbatim>\<open>u\<close>, \<^verbatim>\<open>id\<close> and \<^verbatim>\<open>givenPassword\<close>. When \<^verbatim>\<open>exists\<close> is true with a nil error
  the closure returns nil with \<^verbatim>\<open>u\<close> still nil, and line 240 dereferences it.
\<close>

definition SignUp_tx ::
  "env \<Rightarrow> UserOpts \<Rightarrow> nat set \<Rightarrow> SignUpParams \<Rightarrow> world \<Rightarrow> (error + (User \<times> int \<times> bool)) \<times> world" where
  "SignUp_tx e us F p tx =
     (case exists e F (db tx)
             \<lparr>Exists_Email = SignUp_Email p, Exists_Username = SignUp_Username p\<rparr> of
        (True, Some err) \<Rightarrow> (Inl err, tx)
      | (True, None) \<Rightarrow> (Inl (NilPointerPanic 240), tx)
      | (False, err) \<Rightarrow>
          if 189 \<in> F then (Inl (StoreError 189), tx)
          else
            (case UsernameIsEmail us of
               None \<Rightarrow> (Inl (NilPointerPanic 202), tx)
             | Some b \<Rightarrow>
                 let username = (if b \<or> SignUp_Username p = [] then SignUp_Email p
                                 else SignUp_Username p);
                     uid = uuid_NewV4 e (draws tx);
                     tx1 = tx\<lparr>draws := Suc (draws tx)\<rparr>;
                     (tc, tx2) = time_Now e tx1;
                     (tu, tx3) = time_Now e tx2;
                     u = \<lparr>User_Id = 0, User_Uid = uid, User_Username = username,
                          User_Email = SignUp_Email p, User_FirstName = SignUp_FirstName p,
                          User_LastName = SignUp_LastName p, User_Phone = SignUp_Phone p,
                          User_OrgId = SignUp_OrgId p, User_OrgName = [],
                          User_Updated = Milliseconds tu, User_Created = Milliseconds tc,
                          User_Role = SignUp_Role p, User_Passive = SignUp_Passive p,
                          User_Suspended = False\<rparr>
                 in (case (if SignUp_Password p = []
                           then (case PassGen us of
                                   None \<Rightarrow> Inl (NilPointerPanic 211)
                                 | Some gen \<Rightarrow>
                                     Inr (gen (draws tx3) 128, False,
                                          tx3\<lparr>draws := Suc (draws tx3)\<rparr>))
                           else Inr (SignUp_Password p, True, tx3)) of
                       Inl err \<Rightarrow> (Inl err, tx3)
                     | Inr (password, givenPassword, tx4) \<Rightarrow>
                         (case hashPassword e password tx4 of
                            (Inl err, tx5) \<Rightarrow> (Inl err, tx5)
                          | (Inr hash, tx5) \<Rightarrow>
                              if 222 \<in> F then (Inl (StoreError 222), tx5)
                              else
                                let lid = next_id (users (db tx5));
                                    tx6 = tx5\<lparr>db := (db tx5)\<lparr>users := users (db tx5) @
                                      [\<lparr>u_id = lid, u_username = User_Username u,
                                        u_uid = User_Uid u, u_email = User_Email u,
                                        u_first_name = User_FirstName u,
                                        u_last_name = User_LastName u, u_phone = User_Phone u,
                                        u_password_hash = hash, u_org_id = User_OrgId u,
                                        u_updated = User_Updated u, u_created = User_Created u,
                                        u_deleted = 0, u_role = User_Role u,
                                        u_suspended = 0,
                                        u_invite_code = SignUp_InviteCode p,
                                        u_passive = Some (SignUp_Passive p)\<rparr>]\<rparr>\<rparr>
                                in if 230 \<in> F then (Inl (StoreError 230), tx6)
                                   else (Inr (u, lid, givenPassword), tx6)))))"

definition SignUp ::
  "env \<Rightarrow> UserOpts \<Rightarrow> nat set \<Rightarrow> SignUpParams \<Rightarrow> world \<Rightarrow> (error + (User \<times> string)) \<times> world" where
  "SignUp e us F p0 w0 =
     (let (p, w) = (if SignUp_Passive p0 \<and> SignUp_Email p0 = []
                    then (p0\<lparr>SignUp_Email := uuid_NewV4 e (draws w0) @ ''@passive-user.gus''\<rparr>,
                          w0\<lparr>draws := Suc (draws w0)\<rparr>)
                    else (p0, w0))
      in case Tx w (SignUp_tx e us F p) of
           (Inl err, w1) \<Rightarrow> (Inl err, w1)
         | (Inr (u0, lid, givenPassword), w1) \<Rightarrow>
             let u = u0\<lparr>User_Id := lid\<rparr> in
             if givenPassword then (Inr (u, []), w1)
             else if \<not> User_Passive u
             then (case ResetPassword e us F \<lparr>Reset_Email = SignUp_Email p\<rparr> w1 of
                     (Inl err, w2) \<Rightarrow> (Inl err, w2)
                   | (Inr at, w2) \<Rightarrow> (Inr (u, at), w2))
             else (Inr (u, []), w1))"

subsection \<open>ChangePassword\<close>

definition IsNull :: "string \<Rightarrow> bool" where
  "IsNull str \<longleftrightarrow> length str = 0"

definition is_upper :: "char \<Rightarrow> bool" where
  "is_upper c \<longleftrightarrow> 65 \<le> (of_char c :: nat) \<and> (of_char c :: nat) \<le> 90"

definition is_lower :: "char \<Rightarrow> bool" where
  "is_lower c \<longleftrightarrow> 97 \<le> (of_char c :: nat) \<and> (of_char c :: nat) \<le> 122"

definition is_digit :: "char \<Rightarrow> bool" where
  "is_digit c \<longleftrightarrow> 48 \<le> (of_char c :: nat) \<and> (of_char c :: nat) \<le> 57"

definition is_special :: "char \<Rightarrow> bool" where
  "is_special c \<longleftrightarrow> \<not> is_upper c \<and> \<not> is_lower c \<and> \<not> is_digit c"

text \<open>
  Modelled from the spec: \<^verbatim>\<open>ValidatePassword\<close> is not under src/. The spec's rule is: either
  at least one upper-case letter, one lower-case letter, one digit, one special character and
  length at least 8, or length at least 15 with any composition. The spec does not say
  which characters are special: here, those that are neither an ASCII letter nor an ASCII
  digit.
\<close>

definition ValidatePassword :: "string \<Rightarrow> bool" where
  "ValidatePassword pw \<longleftrightarrow>
     (list_ex is_upper pw \<and> list_ex is_lower pw \<and> list_ex is_digit pw \<and>
      list_ex is_special pw \<and> 8 \<le> length pw) \<or> 15 \<le> length pw"

text \<open>\<open>None\<close> is the nil error.\<close>

definition ChangePasswordParams_Validate :: "env \<Rightarrow> ChangePasswordParams \<Rightarrow> error option" where
  "ChangePasswordParams_Validate e va =
     (case Change_CustomValidator va of
        Some r \<Rightarrow> r
      | None \<Rightarrow>
          if IsNull (Change_Email va) then Some ErrEmailRequired
          else if \<not> govalidator_IsEmail e (Change_Email va) then Some ErrEmailInvalid
          else if IsNull (Change_ExistingPassword va) \<and> IsNull (Change_ResetToken va)
               then Some (ErrInvalid '''existing_password' or 'reset_token' required.'')
          else if IsNull (Change_NewPassword va)
               then Some (ErrInvalid '''new_password' is required.'')
          else if \<not> ValidatePassword (Change_NewPassword va) then Some ErrPasswordInvalid
          else None)"

text \<open>
  \<^verbatim>\<open>ORDER BY created DESC LIMIT 1\<close>: a row with the greatest \<open>pr_created\<close>, the first of
  them in table order.
\<close>

fun latest :: "reset_row list \<Rightarrow> reset_row option" where
  "latest [] = None"
| "latest (r # rs) =
     (case latest rs of
        None \<Rightarrow> Some r
      | Some r' \<Rightarrow> if pr_created r' > pr_created r then Some r' else Some r)"

text \<open>
  The closure given to \<^verbatim>\<open>Tx\<close> at line 648. The error of the \<^verbatim>\<open>Prepare\<close> at line 649 is
  overwritten unread, so that a failed \<^verbatim>\<open>Prepare\<close> leaves a nil statement for line 652.
\<close>

definition ChangePassword_tx ::
  "env \<Rightarrow> UserOpts \<Rightarrow> nat set \<Rightarrow> ChangePasswordParams \<Rightarrow> world \<Rightarrow> (error + unit) \<times> world" where
  "ChangePassword_tx e us F p tx =
     (if 649 \<in> F then (Inl (NilPointerPanic 652), tx)
      else
        case QueryRow_Scan 655 F
               (latest (filter (\<lambda>r. coll e (pr_email r) (Change_Email p) \<and> pr_deleted r = 0)
                          (password_resets (db tx)))) of
          Inl err \<Rightarrow> (Inl (CheckNotFound err), tx)
        | Inr r \<Rightarrow>
            if pr_reset_token r \<noteq> Change_ResetToken p then (Inl ErrInvalidResetToken, tx)
            else
              let (t, tx1) = time_Now e tx in
              if Milliseconds t > i64 (pr_created r + i64 (ResetTokenExpiry us * 1000))
              then (Inl ErrTokenExpired, tx1)
              else if 665 \<in> F then (Inl (StoreError 665), tx1)
              else (Inr (), revoke_resets e (Change_Email p) tx1))"

text \<open>
  \<^verbatim>\<open>UPDATE users SET password_hash = ?, updated = ? WHERE email = ? AND deleted = 0\<close>
\<close>

definition update_password_hash :: "env \<Rightarrow> string \<Rightarrow> int \<Rightarrow> string \<Rightarrow> world \<Rightarrow> world" where
  "update_password_hash e hash t email w =
     w\<lparr>db := (db w)\<lparr>users :=
          map (\<lambda>u. if coll e (u_email u) email \<and> u_deleted u = 0
                   then u\<lparr>u_password_hash := hash, u_updated := t\<rparr> else u)
            (users (db w))\<rparr>\<rparr>"

text \<open>
  The result of the \<^verbatim>\<open>Exec\<close> at line 683 is assigned and not read: the method returns nil
  whether the update failed or not.
\<close>

definition ChangePassword ::
  "env \<Rightarrow> UserOpts \<Rightarrow> nat set \<Rightarrow> ChangePasswordParams \<Rightarrow> world \<Rightarrow> (error + unit) \<times> world" where
  "ChangePassword e us F p w =
     (case (if Change_ExistingPassword p \<noteq> []
            then (case SignIn e us F
                         \<lparr>SignIn_Email = [], SignIn_Username = Change_Email p,
                          SignIn_Password = Change_ExistingPassword p\<rparr> w of
                    (Inl err, w1) \<Rightarrow> (Inl err, w1)
                  | (Inr u, w1) \<Rightarrow> (Inr (), w1))
            else if Change_ResetToken p \<noteq> [] then Tx w (ChangePassword_tx e us F p)
            else (Inl ErrNotAuth, w)) of
        (Inl err, w1) \<Rightarrow> (Inl err, w1)
      | (Inr x, w1) \<Rightarrow>
          (case hashPassword e (Change_NewPassword p) w1 of
             (Inl err, w2) \<Rightarrow> (Inl err, w2)
           | (Inr hash, w2) \<Rightarrow>
               if 678 \<in> F then (Inl (CheckNotFound (StoreError 678)), w2)
               else
                 let (t, w3) = time_Now e w2 in
                 if 683 \<in> F then (Inr (), w3)
                 else (Inr (), update_password_hash e hash (Milliseconds t) (Change_Email p) w3)))"

section \<open>Concrete inputs\<close>

text \<open>
  A test environment: the store compares text with \<open>c\<close>, the clock is \<open>k\<close>, the hash of
  a password is the password behind a fixed prefix, the \<open>n\<close>-th generated string has the
  requested length and starts with \<open>n\<close> marks and the \<open>n\<close>-th uuid carries \<open>n\<close> marks, so
  that two draws differ.
\<close>

definition test_uuid :: "nat \<Rightarrow> string" where
  "test_uuid n = ''uuid'' @ replicate n CHR ''u''"

definition test_gen :: "nat \<Rightarrow> int \<Rightarrow> string" where
  "test_gen n len = replicate n CHR ''t'' @ replicate (nat len - n) CHR ''a''"

definition test_hash :: "nat \<Rightarrow> string \<Rightarrow> string option" where
  "test_hash n password = Some (''bcrypt:'' @ password)"

definition test_compare :: "string \<Rightarrow> string \<Rightarrow> bool" where
  "test_compare hash password \<longleftrightarrow> hash = ''bcrypt:'' @ password"

definition test_IsEmail :: "string \<Rightarrow> bool" where
  "test_IsEmail str \<longleftrightarrow> CHR ''@'' \<in> set str"

text \<open>
  The lower-casing of the test environment maps the letters A to Z to a to z and keeps
  every other byte: what \<^verbatim>\<open>strings.ToLower\<close> gives on ASCII text, which is all that the
  concrete inputs below hold.
\<close>

definition ascii_ToLower_char :: "char \<Rightarrow> char" where
  "ascii_ToLower_char c =
     (let n = (of_char c :: nat) in if 65 \<le> n \<and> n \<le> 90 then char_of (n + 32) else c)"

definition ascii_ToLower :: "string \<Rightarrow> string" where
  "ascii_ToLower s = map ascii_ToLower_char s"

definition binary_eq :: "string \<Rightarrow> string \<Rightarrow> bool" where
  "binary_eq a b \<longleftrightarrow> a = b"

definition ci_eq :: "string \<Rightarrow> string \<Rightarrow> bool" where
  "ci_eq a b \<longleftrightarrow> ascii_ToLower a = ascii_ToLower b"

definition clock_from :: "int \<Rightarrow> nat \<Rightarrow> int" where
  "clock_from t0 n = t0 + int n"

definition test_env :: "(string \<Rightarrow> string \<Rightarrow> bool) \<Rightarrow> (nat \<Rightarrow> int) \<Rightarrow> env" where
  "test_env c k =
     \<lparr>coll = c, clk = k, uuid_NewV4 = test_uuid, RandStringBytesMaskImprSrc = test_gen,
      bcrypt_GenerateFromPassword = test_hash, bcrypt_CompareHashAndPassword = test_compare,
      govalidator_IsEmail = test_IsEmail, strings_ToLower = ascii_ToLower\<rparr>"

text \<open>The zero value of \<^verbatim>\<open>UserOpts\<close>, and the options with two limits set.\<close>

definition zero_opts :: UserOpts where
  "zero_opts =
     \<lparr>AuthAttempts = 0, AuthLockDuration = 0, PassGen = None, UsernameIsEmail = None,
      ResetTokenExpiry = 0\<rparr>"

definition limit_opts :: "int \<Rightarrow> int \<Rightarrow> UserOpts" where
  "limit_opts n d = zero_opts\<lparr>AuthAttempts := n, AuthLockDuration := d\<rparr>"

definition empty_world :: world where
  "empty_world =
     \<lparr>db = \<lparr>users = [], orgs = [], password_attempts = [], password_resets = []\<rparr>,
      ticks = 0, draws = 0, compared = []\<rparr>"

definition account :: "int \<Rightarrow> string \<Rightarrow> string \<Rightarrow> string \<Rightarrow> user_row" where
  "account i username email password =
     \<lparr>u_id = i, u_username = username, u_uid = ''uid'', u_email = email, u_first_name = [],
      u_last_name = [], u_phone = [], u_password_hash = ''bcrypt:'' @ password, u_org_id = 0,
      u_updated = 0, u_created = 0, u_deleted = 0, u_role = 0, u_suspended = 0,
      u_invite_code = [], u_passive = Some False\<rparr>"

definition with_users :: "user_row list \<Rightarrow> world \<Rightarrow> world" where
  "with_users rows w = w\<lparr>db := (db w)\<lparr>users := rows\<rparr>\<rparr>"

definition with_attempts :: "attempt_row list \<Rightarrow> world \<Rightarrow> world" where
  "with_attempts rows w = w\<lparr>db := (db w)\<lparr>password_attempts := rows\<rparr>\<rparr>"

definition with_resets :: "reset_row list \<Rightarrow> world \<Rightarrow> world" where
  "with_resets rows w = w\<lparr>db := (db w)\<lparr>password_resets := rows\<rparr>\<rparr>"

definition sign_in :: "string \<Rightarrow> string \<Rightarrow> SignInParams" where
  "sign_in username password =
     \<lparr>SignIn_Email = [], SignIn_Username = username, SignIn_Password = password\<rparr>"

definition sign_up :: "string \<Rightarrow> string \<Rightarrow> string \<Rightarrow> SignUpParams" where
  "sign_up username email password =
     \<lparr>SignUp_Username = username, SignUp_InviteCode = [], SignUp_Password = password,
      SignUp_Email = email, SignUp_FirstName = [], SignUp_LastName = [], SignUp_Phone = [],
      SignUp_OrgId = 0, SignUp_Role = 0, SignUp_Passive = False\<rparr>"

definition change_by_token :: "string \<Rightarrow> string \<Rightarrow> string \<Rightarrow> ChangePasswordParams" where
  "change_by_token email token new_password =
     \<lparr>Change_Email = email, Change_ExistingPassword = [], Change_NewPassword = new_password,
      Change_ResetToken = token, Change_CustomValidator = None\<rparr>"





text \<open>
  One account ''bob'' with the password ''pw''; the clock stands at 1000000 ms. In
  \<open>c10_slow_env\<close> 2500 ms pass between two readings of the clock.
\<close>

definition c10_env :: env where
  "c10_env = test_env binary_eq (clock_from 1000000)"

definition clock_step :: "int \<Rightarrow> int \<Rightarrow> nat \<Rightarrow> int" where
  "clock_step t0 d n = t0 + d * int n"

definition c10_slow_env :: env where
  "c10_slow_env = test_env binary_eq (clock_step 1000000 2500)"

definition c10_world :: world where
  "c10_world = with_users [account 1 ''bob'' ''bob@x.com'' ''pw''] empty_world"

text \<open>
  A passive account made by \<open>SignUp\<close> with no password, for an engine that allows one
  attempt in 300 seconds; in \<open>c4_locked_world\<close> the log already holds one attempt.
\<close>

definition sign_up_passive :: "string \<Rightarrow> SignUpParams" where
  "sign_up_passive email = (sign_up [] email [])\<lparr>SignUp_Passive := True\<rparr>"

definition c4_env :: env where
  "c4_env = test_env binary_eq (clock_from 1000000)"

definition c4_users :: UserOpts where
  "c4_users = NewUsers c4_env (limit_opts 1 300)"

definition c4_world :: world where
  "c4_world = snd (SignUp c4_env c4_users {} (sign_up_passive ''svc@x.com'') empty_world)"

definition c4_locked_world :: world where
  "c4_locked_world =
     with_attempts [\<lparr>pa_username = ''svc@x.com'', pa_created = 999000\<rparr>] c4_world"

text \<open>
  An engine with the username policy given to \<open>NewUsers\<close>, and the store after the sign-up
  of the username ''bob@x.com'' with the email ''robert@x.com'' under usernames that are
  not the emails; the store compares text with \<open>c\<close>: exactly (\<open>binary_eq\<close>) or without
  regard to case (\<open>ci_eq\<close>).
\<close>

definition c3_env :: "(string \<Rightarrow> string \<Rightarrow> bool) \<Rightarrow> env" where
  "c3_env c = test_env c (clock_from 1000000)"

definition c3_users :: "bool option \<Rightarrow> UserOpts" where
  "c3_users policy = NewUsers (c3_env binary_eq) ((limit_opts 5 300)\<lparr>UsernameIsEmail := policy\<rparr>)"

definition c3_bob :: "(string \<Rightarrow> string \<Rightarrow> bool) \<Rightarrow> world" where
  "c3_bob c = snd (SignUp (c3_env c) (c3_users (Some False)) {}
                     (sign_up ''bob@x.com'' ''robert@x.com'' ''pw1'') empty_world)"

text \<open>
  One account with the email ''ann@x.com'' and the password ''old'', and one active reset
  token ''T'' for that email, created at 1000000 ms; the clock stands at \<open>now\<close>. The engine
  \<open>c6_users\<close> is made by \<open>NewUsers\<close> with no token expiry given, \<open>c6_users_day\<close> with an
  expiry of one day in seconds. In \<open>c8_deleted_world\<close> and \<open>c9_world\<close> the account is
  soft-deleted.
\<close>

definition token_row :: "int \<Rightarrow> string \<Rightarrow> string \<Rightarrow> int \<Rightarrow> reset_row" where
  "token_row uid email token created =
     \<lparr>pr_user_id = uid, pr_email = email, pr_reset_token = token, pr_created = created,
      pr_deleted = 0\<rparr>"

definition c6_env :: "int \<Rightarrow> env" where
  "c6_env now = test_env binary_eq (clock_from now)"

definition c6_users :: "int \<Rightarrow> UserOpts" where
  "c6_users now = NewUsers (c6_env now) (limit_opts 5 300)"

definition c6_users_day :: "int \<Rightarrow> UserOpts" where
  "c6_users_day now =
     NewUsers (c6_env now) ((limit_opts 5 300)\<lparr>ResetTokenExpiry := 24 * 60 * 60\<rparr>)"

definition c6_world :: world where
  "c6_world =
     with_resets [token_row 1 ''ann@x.com'' ''T'' 1000000]
       (with_users [account 1 ''ann@x.com'' ''ann@x.com'' ''old''] empty_world)"

definition c8_deleted_world :: world where
  "c8_deleted_world =
     with_resets [token_row 1 ''ann@x.com'' ''T'' 1000000]
       (with_users [(account 1 ''ann@x.com'' ''ann@x.com'' ''old'')\<lparr>u_deleted := 1\<rparr>]
          empty_world)"

definition c9_world :: world where
  "c9_world = with_users [(account 1 ''ann'' ''ann@x.com'' ''pw'')\<lparr>u_deleted := 1\<rparr>] empty_world"

text \<open>
  An engine whose usernames are not the emails, one account with the username
  ''bob@x.com'' and the email ''robert@x.com'', and two reset requests for \<open>email\<close>.
\<close>

definition c5_env :: env where
  "c5_env = test_env binary_eq (clock_from 1000000)"

definition c5_users :: UserOpts where
  "c5_users = NewUsers c5_env ((limit_opts 5 300)\<lparr>UsernameIsEmail := Some False\<rparr>)"

definition c5_world :: world where
  "c5_world = snd (SignUp c5_env c5_users {}
                     (sign_up ''bob@x.com'' ''robert@x.com'' ''pw'') empty_world)"

definition reset_twice :: "string \<Rightarrow> world" where
  "reset_twice email =
     snd (ResetPassword c5_env c5_users {} \<lparr>Reset_Email = email\<rparr>
            (snd (ResetPassword c5_env c5_users {} \<lparr>Reset_Email = email\<rparr> c5_world)))"

section \<open>Theorems\<close>

lemma NewUsers_AuthAttempts: "AuthAttempts (NewUsers e opt) = AuthAttempts opt"
  by (simp add: NewUsers_def Let_def)

lemma NewUsers_AuthLockDuration:
  "AuthLockDuration (NewUsers e opt) =
     (if AuthLockDuration opt = 0 then 300 else AuthLockDuration opt)"
  by (simp add: NewUsers_def Let_def)

lemma NewUsers_ResetTokenExpiry:
  "ResetTokenExpiry (NewUsers e opt) =
     (if ResetTokenExpiry opt = 0 then 86400000 else ResetTokenExpiry opt)"
  by (simp add: NewUsers_def Let_def)

lemma NewUsers_UsernameIsEmail:
  "UsernameIsEmail (NewUsers e opt) =
     Some (case UsernameIsEmail opt of None \<Rightarrow> True | Some b \<Rightarrow> b)"
  by (cases "UsernameIsEmail opt") (simp_all add: NewUsers_def Let_def)

lemma SignIn_identifier_NewUsers: "\<exists>username. SignIn_identifier (NewUsers e opt) p = Inr username"
  by (simp add: SignIn_identifier_def NewUsers_UsernameIsEmail Let_def)

lemma isLocked_fault:
  "346 \<in> F \<or> 351 \<in> F \<or> 361 \<in> F \<Longrightarrow> fst (isLocked e us F username w) = True"
  by (auto simp: isLocked_def Let_def split: prod.splits)

text \<open>
  C2. Fail-closed rate limiting: when the insert of the attempt record (prepared at line
  346, executed at line 351) or the read of the attempt count (line 361) fails, the
  sign-in of an engine made by \<open>NewUsers\<close> returns the rate-limit error, not a store error.
\<close>

theorem SignIn_fail_closed:
  assumes "346 \<in> F \<or> 351 \<in> F \<or> 361 \<in> F"
  shows "fst (SignIn e (NewUsers e opt) F p w) = Inl RateLimitExceededError"
proof -
  obtain username where u: "SignIn_identifier (NewUsers e opt) p = Inr username"
    using SignIn_identifier_NewUsers by blast
  have "fst (isLocked e (NewUsers e opt) F username w) = True"
    using assms by (rule isLocked_fault)
  then obtain w1 where "isLocked e (NewUsers e opt) F username w = (True, w1)"
    by (cases "isLocked e (NewUsers e opt) F username w") simp
  then show ?thesis
    by (simp add: SignIn_def u)
qed

theorem SignIn_fail_closed_witness:
  "351 \<in> {351 :: nat} \<and>
   fst (SignIn (test_env binary_eq (clock_from 0))
          (NewUsers (test_env binary_eq (clock_from 0)) zero_opts)
          {351} (sign_in ''bob'' ''pw'') empty_world) = Inl RateLimitExceededError"
  using SignIn_fail_closed [where F = "{351}" and e = "test_env binary_eq (clock_from 0)"
      and opt = zero_opts and p = "sign_in ''bob'' ''pw''" and w = empty_world]
  by simp

lemma isLocked_nofault:
  assumes "346 \<notin> F" "351 \<notin> F" "361 \<notin> F"
  shows "isLocked e us F username w =
    (attempts_since e (i64 (i64 (clk e (Suc (ticks w)) div 1000 - AuthLockDuration us) * 1000))
        username
        (password_attempts (db w) @ [\<lparr>pa_username = username, pa_created = clk e (ticks w)\<rparr>])
       > AuthAttempts us,
     w\<lparr>db := (db w)\<lparr>password_attempts := password_attempts (db w) @
            [\<lparr>pa_username = username, pa_created = clk e (ticks w)\<rparr>]\<rparr>,
       ticks := Suc (Suc (ticks w))\<rparr>)"
  using assms by (simp add: isLocked_def time_Now_def Milliseconds_def Unix_def Let_def)



lemma isLocked_users: "users (db (snd (isLocked e us F username w))) = users (db w)"
  by (simp add: isLocked_def time_Now_def Let_def)

lemma isLocked_orgs: "orgs (db (snd (isLocked e us F username w))) = orgs (db w)"
  by (simp add: isLocked_def time_Now_def Let_def)

lemma org_suspended_tables: "orgs s = orgs s' \<Longrightarrow> org_suspended s oid = org_suspended s' oid"
  by (simp add: org_suspended_def)

lemma GetByUsername_tables:
  "users s = users s' \<Longrightarrow> orgs s = orgs s' \<Longrightarrow>
   GetByUsername e F s username = GetByUsername e F s' username"
proof -
  assume u: "users s = users s'" and o: "orgs s = orgs s'"
  have "org_suspended s = org_suspended s'"
    using o by (simp add: org_suspended_def fun_eq_iff)
  then show ?thesis
    using u by (simp add: GetByUsername_def Let_def split: sum.splits)
qed

lemma GetByUsername_errors:
  "GetByUsername e F s username = Inl err \<Longrightarrow>
   err = StoreError 265 \<or> err = StoreError 275 \<or> err = ErrNotFound"
  by (auto simp: GetByUsername_def QueryRow_Scan_def CheckNotFound_def Let_def
           split: if_splits option.splits)

lemma SignIn_RateLimit_iff:
  assumes "SignIn_identifier us p = Inr username"
  shows "fst (SignIn e us F p w) = Inl RateLimitExceededError \<longleftrightarrow>
         fst (isLocked e us F username w)"
  using assms
  by (cases "isLocked e us F username w")
     (auto simp: SignIn_def Let_def dest: GetByUsername_errors
           split: sum.splits prod.splits bool.splits if_splits)






lemma i64_id: "- (2 ^ 63) \<le> x \<Longrightarrow> x < 2 ^ 63 \<Longrightarrow> i64 x = x"
  by (simp add: i64_def)

lemma attempts_since_new:
  assumes "since < t" "coll e username username"
  shows "0 < attempts_since e since username
               (rows @ [\<lparr>pa_username = username, pa_created = t\<rparr>])"
  using assms by (simp add: attempts_since_def)

lemma window_start_below:
  fixes t1 t2 d :: int
  assumes "0 \<le> t1" "t1 \<le> t2" "t2 < t1 + d * 1000" "t2 < 2 ^ 63" "0 \<le> d" "d * 1000 < 2 ^ 63"
  shows "i64 (i64 (t2 div 1000 - d) * 1000) < t1"
proof -
  have a: "0 \<le> t2 div 1000" "t2 div 1000 \<le> t2" "t2 div 1000 * 1000 \<le> t2"
    using assms by simp_all
  have "i64 (t2 div 1000 - d) = t2 div 1000 - d"
    using a assms by (intro i64_id) auto
  moreover have "i64 ((t2 div 1000 - d) * 1000) = (t2 div 1000 - d) * 1000"
    using a assms by (intro i64_id) auto
  ultimately show ?thesis using a assms by simp
qed

text \<open>
  C10. Zero-valued attempts limit, as the code has it. Let the engine be made by \<open>NewUsers\<close>
  from options whose \<open>AuthAttempts\<close> is 0 and whose \<open>AuthLockDuration\<close> \<open>D\<close> satisfies
  \<open>0 \<le> D\<close> and \<open>D * 1000 < 2 ^ 63\<close> (\<open>D = 0\<close> is replaced by the default of 300 seconds).
  Then a sign-in, for any identifier, any password and whichever store calls fail, returns
  the rate-limit error whenever the store's comparison finds the identifier equal to
  itself and the two clock readings of the lock check, \<open>t1\<close> (stored with the attempt) and
  \<open>t2\<close> (used for the window), in epoch milliseconds, satisfy \<open>0 \<le> t1 \<le> t2 < 2 ^ 63\<close> and
  \<open>t2 < t1 +\<close> the effective lock duration \<open>* 1000\<close>: the attempt record just inserted is
  then counted, and one exceeds zero.
\<close>

theorem zero_AuthAttempts_locks:
  assumes zero: "AuthAttempts opt = 0"
      and ident: "SignIn_identifier (NewUsers e opt) p = Inr username"
      and refl: "coll e username username"
      and dur: "0 \<le> AuthLockDuration opt" "AuthLockDuration opt * 1000 < 2 ^ 63"
      and clock: "0 \<le> clk e (ticks w)" "clk e (ticks w) \<le> clk e (Suc (ticks w))"
        "clk e (Suc (ticks w)) < clk e (ticks w) + AuthLockDuration (NewUsers e opt) * 1000"
        "clk e (Suc (ticks w)) < 2 ^ 63"
  shows "fst (SignIn e (NewUsers e opt) F p w) = Inl RateLimitExceededError"
proof (cases "346 \<in> F \<or> 351 \<in> F \<or> 361 \<in> F")
  case True
  then show ?thesis by (simp add: SignIn_RateLimit_iff [OF ident] isLocked_fault)
next
  case False
  then have nofault: "346 \<notin> F" "351 \<notin> F" "361 \<notin> F" by simp_all
  have d: "0 \<le> AuthLockDuration (NewUsers e opt)"
    "AuthLockDuration (NewUsers e opt) * 1000 < 2 ^ 63"
    using dur by (simp_all add: NewUsers_AuthLockDuration)
  have "i64 (i64 (clk e (Suc (ticks w)) div 1000 - AuthLockDuration (NewUsers e opt)) * 1000)
          < clk e (ticks w)"
    using clock d by (intro window_start_below) simp_all
  then have "0 < attempts_since e
      (i64 (i64 (clk e (Suc (ticks w)) div 1000 - AuthLockDuration (NewUsers e opt)) * 1000))
      username
      (password_attempts (db w) @ [\<lparr>pa_username = username, pa_created = clk e (ticks w)\<rparr>])"
    using refl by (rule attempts_since_new)
  then show ?thesis
    by (simp add: SignIn_RateLimit_iff [OF ident] isLocked_nofault [OF nofault]
        NewUsers_AuthAttempts zero)
qed

theorem zero_AuthAttempts_locks_witness:
  "AuthAttempts zero_opts = 0 \<and>
   fst (SignIn c10_env (NewUsers c10_env zero_opts) {} (sign_in ''bob'' ''pw'') c10_world) =
     Inl RateLimitExceededError"
proof -
  have z: "AuthAttempts zero_opts = 0" by code_simp
  have i: "SignIn_identifier (NewUsers c10_env zero_opts) (sign_in ''bob'' ''pw'') = Inr ''bob''"
    by code_simp
  have r: "coll c10_env ''bob'' ''bob''" by code_simp
  have d: "0 \<le> AuthLockDuration zero_opts" "AuthLockDuration zero_opts * 1000 < 2 ^ 63"
    by code_simp+
  have c: "0 \<le> clk c10_env (ticks c10_world)"
    "clk c10_env (ticks c10_world) \<le> clk c10_env (Suc (ticks c10_world))"
    "clk c10_env (Suc (ticks c10_world)) <
       clk c10_env (ticks c10_world) + AuthLockDuration (NewUsers c10_env zero_opts) * 1000"
    "clk c10_env (Suc (ticks c10_world)) < 2 ^ 63"
    by code_simp+
  show ?thesis
    using zero_AuthAttempts_locks [OF z i r d c, of "{}"] z by simp
qed

theorem zero_AuthAttempts_locks_counterexample:
  "(AuthAttempts (NewUsers c10_env (limit_opts 0 (- 1))) = 0 \<and>
    fst (SignIn c10_env (NewUsers c10_env (limit_opts 0 (- 1))) {} (sign_in ''bob'' ''pw'')
           c10_world) =
      Inr (scan_User (account 1 ''bob'' ''bob@x.com'' ''pw''),
           \<lparr>Claims_Role = 0, Claims_OrgId = 0, Claims_OrgSuspended = False\<rparr>)) \<and>
   (AuthAttempts (NewUsers c10_env (limit_opts 0 (2 ^ 63 - 1))) = 0 \<and>
    fst (SignIn c10_env (NewUsers c10_env (limit_opts 0 (2 ^ 63 - 1))) {}
           (sign_in ''bob'' ''pw'') c10_world) =
      Inr (scan_User (account 1 ''bob'' ''bob@x.com'' ''pw''),
           \<lparr>Claims_Role = 0, Claims_OrgId = 0, Claims_OrgSuspended = False\<rparr>)) \<and>
   (AuthAttempts (NewUsers c10_slow_env (limit_opts 0 1)) = 0 \<and>
    clk c10_slow_env 1 - clk c10_slow_env 0 = 2500 \<and>
    fst (SignIn c10_slow_env (NewUsers c10_slow_env (limit_opts 0 1)) {}
           (sign_in ''bob'' ''pw'') c10_world) =
      Inr (scan_User (account 1 ''bob'' ''bob@x.com'' ''pw''),
           \<lparr>Claims_Role = 0, Claims_OrgId = 0, Claims_OrgSuspended = False\<rparr>))"
  by code_simp

text \<open>
  C4. Passive accounts never authenticate, as the code has it. When the lookup of the
  sign-in finds an account that is passive, suspended, or of a suspended organisation,
  the sign-in returns the rate-limit error if the rate limiter locks the identifier and
  \<open>ErrNotAuth\<close> otherwise: never a success, whatever the password tried and whatever the
  stored hash.
\<close>

theorem passive_never_signs_in:
  assumes ident: "SignIn_identifier us p = Inr username"
      and found: "GetByUsername e F (db w) username = Inr (u, hash)"
      and gated: "User_Passive (fst u) \<or> User_Suspended (fst u) \<or> Claims_OrgSuspended (snd u)"
  shows "fst (SignIn e us F p w) =
           (if fst (isLocked e us F username w) then Inl RateLimitExceededError
            else Inl ErrNotAuth)"
proof (cases "isLocked e us F username w")
  case (Pair b w1)
  have "GetByUsername e F (db w1) username = GetByUsername e F (db w) username"
    using isLocked_users [of e us F username w] isLocked_orgs [of e us F username w] Pair
    by (intro GetByUsername_tables) simp_all
  then show ?thesis
    using ident found gated Pair by (cases b) (auto simp: SignIn_def)
qed

theorem passive_never_signs_in_witness:
  "User_Passive (fst (fst (projr (GetByUsername c4_env {} (db c4_world) ''svc@x.com'')))) \<and>
   fst (SignIn c4_env c4_users {} (sign_in ''svc@x.com'' ''guess'') c4_world) = Inl ErrNotAuth"
proof -
  have i: "SignIn_identifier c4_users (sign_in ''svc@x.com'' ''guess'') = Inr ''svc@x.com''"
    by code_simp
  have g: "GetByUsername c4_env {} (db c4_world) ''svc@x.com'' =
      Inr (fst (projr (GetByUsername c4_env {} (db c4_world) ''svc@x.com'')),
           snd (projr (GetByUsername c4_env {} (db c4_world) ''svc@x.com'')))"
    by code_simp
  have q: "User_Passive (fst (fst (projr (GetByUsername c4_env {} (db c4_world) ''svc@x.com''))))"
    by code_simp
  have l: "\<not> fst (isLocked c4_env c4_users {} ''svc@x.com'' c4_world)"
    by code_simp
  show ?thesis
    using passive_never_signs_in [OF i g] q l by simp
qed

theorem passive_never_signs_in_counterexample:
  "User_Passive (fst (fst (projr (GetByUsername c4_env {} (db c4_locked_world) ''svc@x.com'')))) \<and>
   fst (SignIn c4_env c4_users {} (sign_in ''svc@x.com'' ''guess'') c4_locked_world) =
     Inl RateLimitExceededError \<and>
   fst (SignIn c4_env c4_users {} (sign_in ''svc@x.com'' ''guess'') c4_locked_world) \<noteq>
     Inl ErrNotAuth"
  by code_simp

lemma exists_found:
  assumes coll: "\<forall>a b. coll e a b \<longrightarrow> strings_ToLower e a = strings_ToLower e b"
      and nofault: "152 \<notin> F" "158 \<notin> F"
      and found: "List.find (exists_where e q) (users tx) = Some r"
  shows "exists e F tx q =
           (True, Some (if strings_ToLower e (u_email r) = strings_ToLower e (Exists_Email q)
                        then ErrEmailTaken else ErrUsernameTaken))"
proof -
  have "exists_where e q r"
    using found by (auto simp: find_Some_iff)
  then have "strings_ToLower e (u_email r) = strings_ToLower e (Exists_Email q) \<or>
             strings_ToLower e (u_username r) = strings_ToLower e (Exists_Username q)"
    using coll by (auto simp: exists_where_def)
  then show ?thesis
    using nofault found by (auto simp: exists_def QueryRow_Scan_def)
qed

lemma Tx_error: "fst (fn w) = Inl err \<Longrightarrow> fst (Tx w fn) = Inl err \<and> db (snd (Tx w fn)) = db w"
  by (cases "fn w") (auto simp: Tx_def)

text \<open>
  When the uniqueness query returns a row, under a comparison of the store that equates
  no more than the lower-casing does, the sign-up fails with the error of that row and
  the transaction is rolled back: the store is as before.
\<close>

lemma SignUp_rejects_found_row:
  assumes coll: "\<forall>a b. coll e a b \<longrightarrow> strings_ToLower e a = strings_ToLower e b"
      and nofault: "152 \<notin> F" "158 \<notin> F"
      and email: "\<not> (SignUp_Passive p \<and> SignUp_Email p = [])"
      and taken: "\<exists>r \<in> set (users (db w)). u_deleted r = 0 \<and>
                    (coll e (u_email r) (SignUp_Email p) \<or>
                     coll e (u_username r) (SignUp_Username p))"
  shows "\<exists>r. List.find (exists_where e
                 \<lparr>Exists_Email = SignUp_Email p, Exists_Username = SignUp_Username p\<rparr>)
               (users (db w)) = Some r \<and>
             fst (SignUp e us F p w) =
               Inl (if strings_ToLower e (u_email r) = strings_ToLower e (SignUp_Email p)
                    then ErrEmailTaken else ErrUsernameTaken) \<and>
             db (snd (SignUp e us F p w)) = db w"
proof -
  let ?q = "\<lparr>Exists_Email = SignUp_Email p, Exists_Username = SignUp_Username p\<rparr>"
  have "List.find (exists_where e ?q) (users (db w)) \<noteq> None"
    using taken by (auto simp: find_None_iff exists_where_def)
  then obtain r where r: "List.find (exists_where e ?q) (users (db w)) = Some r"
    by auto
  let ?err = "if strings_ToLower e (u_email r) = strings_ToLower e (SignUp_Email p)
              then ErrEmailTaken else ErrUsernameTaken"
  have "exists e F (db w) ?q = (True, Some ?err)"
    using exists_found [OF coll nofault r] by simp
  then have "fst (SignUp_tx e us F p w) = Inl ?err"
    by (simp add: SignUp_tx_def)
  then have "fst (Tx w (SignUp_tx e us F p)) = Inl ?err \<and>
             db (snd (Tx w (SignUp_tx e us F p))) = db w"
    by (rule Tx_error)
  then have "fst (SignUp e us F p w) = Inl ?err \<and> db (snd (SignUp e us F p w)) = db w"
    using email by (cases "Tx w (SignUp_tx e us F p)") (auto simp: SignUp_def)
  with r show ?thesis by blast
qed

text \<open>
  C3. Uniqueness at sign-up, at one input. The engine's usernames are not the emails and
  the store holds one account, with the username ''bob@x.com'' and the email
  ''robert@x.com''. A sign-up with no username and the email ''bob@x.com'' is checked with
  the empty username (line 185), gets the username ''bob@x.com'' afterwards (line 203) and
  is inserted: two non-deleted accounts then have the same username, whether the store
  compares text exactly or without regard to case. A sign-up that gives the username
  ''bob@x.com'' itself fails with \<open>ErrUsernameTaken\<close>.
\<close>

theorem SignUp_duplicate_username:
  "(map u_username (users (db (c3_bob binary_eq))) = [''bob@x.com''] \<and>
    \<not> isl (fst (SignUp (c3_env binary_eq) (c3_users (Some False)) {}
                  (sign_up [] ''bob@x.com'' ''pw2'') (c3_bob binary_eq))) \<and>
    map u_username (users (db (snd (SignUp (c3_env binary_eq) (c3_users (Some False)) {}
                  (sign_up [] ''bob@x.com'' ''pw2'') (c3_bob binary_eq))))) =
      [''bob@x.com'', ''bob@x.com''] \<and>
    map u_deleted (users (db (snd (SignUp (c3_env binary_eq) (c3_users (Some False)) {}
                  (sign_up [] ''bob@x.com'' ''pw2'') (c3_bob binary_eq))))) = [0, 0] \<and>
    fst (SignUp (c3_env binary_eq) (c3_users (Some False)) {}
           (sign_up ''bob@x.com'' ''other@x.com'' ''pw2'') (c3_bob binary_eq)) =
      Inl ErrUsernameTaken) \<and>
   (map u_username (users (db (c3_bob ci_eq))) = [''bob@x.com''] \<and>
    \<not> isl (fst (SignUp (c3_env ci_eq) (c3_users (Some False)) {}
                  (sign_up [] ''bob@x.com'' ''pw2'') (c3_bob ci_eq))) \<and>
    map u_username (users (db (snd (SignUp (c3_env ci_eq) (c3_users (Some False)) {}
                  (sign_up [] ''bob@x.com'' ''pw2'') (c3_bob ci_eq))))) =
      [''bob@x.com'', ''bob@x.com''] \<and>
    map u_deleted (users (db (snd (SignUp (c3_env ci_eq) (c3_users (Some False)) {}
                  (sign_up [] ''bob@x.com'' ''pw2'') (c3_bob ci_eq))))) = [0, 0] \<and>
    fst (SignUp (c3_env ci_eq) (c3_users (Some False)) {}
           (sign_up ''bob@x.com'' ''other@x.com'' ''pw2'') (c3_bob ci_eq)) =
      Inl ErrUsernameTaken)"
  by code_simp

lemma expiry_in_range:
  fixes created expiry :: int
  assumes "in_int64 (expiry * 1000)" "in_int64 (created + expiry * 1000)"
  shows "i64 (created + i64 (expiry * 1000)) = created + expiry * 1000"
proof -
  have "i64 (expiry * 1000) = expiry * 1000"
    using assms by (intro i64_id) (simp_all add: in_int64_def)
  moreover have "i64 (created + expiry * 1000) = created + expiry * 1000"
    using assms by (intro i64_id) (simp_all add: in_int64_def)
  ultimately show ?thesis by simp
qed

lemma ChangePassword_tx_found:
  assumes nofault: "649 \<notin> F" "655 \<notin> F"
      and found: "latest (filter (\<lambda>r. coll e (pr_email r) (Change_Email p) \<and> pr_deleted r = 0)
                    (password_resets (db w))) = Some r"
      and token: "pr_reset_token r = Change_ResetToken p"
      and range: "in_int64 (ResetTokenExpiry us * 1000)"
                 "in_int64 (pr_created r + ResetTokenExpiry us * 1000)"
  shows "ChangePassword_tx e us F p w =
           (if clk e (ticks w) > pr_created r + ResetTokenExpiry us * 1000
            then (Inl ErrTokenExpired, w\<lparr>ticks := Suc (ticks w)\<rparr>)
            else if 665 \<in> F then (Inl (StoreError 665), w\<lparr>ticks := Suc (ticks w)\<rparr>)
            else (Inr (), revoke_resets e (Change_Email p) (w\<lparr>ticks := Suc (ticks w)\<rparr>)))"
  using nofault found token
  by (simp add: ChangePassword_tx_def QueryRow_Scan_def time_Now_def Milliseconds_def
      expiry_in_range [OF range])

lemma ChangePassword_token_path:
  assumes "Change_ExistingPassword p = []" "Change_ResetToken p \<noteq> []"
  shows "ChangePassword e us F p w =
     (case Tx w (ChangePassword_tx e us F p) of
        (Inl err, w1) \<Rightarrow> (Inl err, w1)
      | (Inr x, w1) \<Rightarrow>
          (case hashPassword e (Change_NewPassword p) w1 of
             (Inl err, w2) \<Rightarrow> (Inl err, w2)
           | (Inr hash, w2) \<Rightarrow>
               if 678 \<in> F then (Inl (CheckNotFound (StoreError 678)), w2)
               else
                 let (t, w3) = time_Now e w2 in
                 if 683 \<in> F then (Inr (), w3)
                 else (Inr (), update_password_hash e hash (Milliseconds t) (Change_Email p) w3)))"
  using assms by (simp add: ChangePassword_def)

text \<open>
  The boundary for any engine: on the token path, with the most recent active token of the
  email matching the supplied one, the select not failing and the deadline within
  \<^verbatim>\<open>int64\<close>, the result is \<open>ErrTokenExpired\<close> exactly when the clock reading is greater
  than created + \<open>ResetTokenExpiry\<close> * 1000; and when the revoke, the hash and the prepare
  of the update do not fail, the operation succeeds exactly when the reading is at most
  that.
\<close>

lemma ChangePassword_expiry_boundary:
  assumes path: "Change_ExistingPassword p = []" "Change_ResetToken p \<noteq> []"
      and found: "latest (filter (\<lambda>r. coll e (pr_email r) (Change_Email p) \<and> pr_deleted r = 0)
                    (password_resets (db w))) = Some r"
      and token: "pr_reset_token r = Change_ResetToken p"
      and nofault: "649 \<notin> F" "655 \<notin> F"
      and range: "in_int64 (ResetTokenExpiry us * 1000)"
                 "in_int64 (pr_created r + ResetTokenExpiry us * 1000)"
  shows "(fst (ChangePassword e us F p w) = Inl ErrTokenExpired \<longleftrightarrow>
            clk e (ticks w) > pr_created r + ResetTokenExpiry us * 1000) \<and>
         (665 \<notin> F \<and> 678 \<notin> F \<and>
          bcrypt_GenerateFromPassword e (draws w) (Change_NewPassword p) \<noteq> None \<longrightarrow>
            (fst (ChangePassword e us F p w) = Inr () \<longleftrightarrow>
               clk e (ticks w) \<le> pr_created r + ResetTokenExpiry us * 1000))"
proof -
  note T = ChangePassword_tx_found [OF nofault found token range]
  note P = ChangePassword_token_path [OF path, of e us F w]
  have A: "fst (ChangePassword e us F p w) = Inl ErrTokenExpired \<longleftrightarrow>
            clk e (ticks w) > pr_created r + ResetTokenExpiry us * 1000"
    by (auto simp: P T Tx_def hashPassword_def time_Now_def revoke_resets_def Let_def
             CheckNotFound_def split: option.splits)
  have B: "665 \<notin> F \<and> 678 \<notin> F \<and>
          bcrypt_GenerateFromPassword e (draws w) (Change_NewPassword p) \<noteq> None \<longrightarrow>
            (fst (ChangePassword e us F p w) = Inr () \<longleftrightarrow>
               clk e (ticks w) \<le> pr_created r + ResetTokenExpiry us * 1000)"
    by (auto simp: P T Tx_def hashPassword_def time_Now_def revoke_resets_def Let_def
             CheckNotFound_def split: option.splits)
  from A B show ?thesis by blast
qed

text \<open>
  C6. Reset-token expiry boundary, under the default. \<open>ResetTokenExpiry\<close> is a number of
  seconds: line 662 multiplies it by 1000 to compare milliseconds. With an expiry of one
  day given as 86400, a token created at 1000000 ms is accepted one millisecond before
  created + one day and refused with \<open>ErrTokenExpired\<close> one millisecond after it. With no
  expiry given, \<open>NewUsers\<close> stores 24 * 60 * 60 * 1000, a day in milliseconds, in that
  field: the token is still accepted one millisecond after created + one day, and up to
  created + 86400000 * 1000 ms, a thousand days; it is refused one millisecond after that.
\<close>

theorem default_expiry_a_thousand_days:
  "(ResetTokenExpiry (c6_users_day 0) = 86400 \<and>
    fst (ChangePassword (c6_env (1000000 + 86400 * 1000 - 1))
           (c6_users_day (1000000 + 86400 * 1000 - 1)) {}
           (change_by_token ''ann@x.com'' ''T'' ''Abcdef1!'') c6_world) = Inr () \<and>
    fst (ChangePassword (c6_env (1000000 + 86400 * 1000 + 1))
           (c6_users_day (1000000 + 86400 * 1000 + 1)) {}
           (change_by_token ''ann@x.com'' ''T'' ''Abcdef1!'') c6_world) = Inl ErrTokenExpired) \<and>
   (ResetTokenExpiry (limit_opts 5 300) = 0 \<and>
    ResetTokenExpiry (c6_users 0) = 86400000 \<and>
    fst (ChangePassword (c6_env (1000000 + 86400 * 1000 + 1))
           (c6_users (1000000 + 86400 * 1000 + 1)) {}
           (change_by_token ''ann@x.com'' ''T'' ''Abcdef1!'') c6_world) = Inr () \<and>
    fst (ChangePassword (c6_env (1000000 + 86400000 * 1000))
           (c6_users (1000000 + 86400000 * 1000)) {}
           (change_by_token ''ann@x.com'' ''T'' ''Abcdef1!'') c6_world) = Inr () \<and>
    fst (ChangePassword (c6_env (1000000 + 86400000 * 1000 + 1))
           (c6_users (1000000 + 86400000 * 1000 + 1)) {}
           (change_by_token ''ann@x.com'' ''T'' ''Abcdef1!'') c6_world) = Inl ErrTokenExpired)"
  by code_simp

text \<open>
  C7. New-password strength rule, as the code has it. The rule is applied by the
  parameters' \<open>Validate\<close>, not by \<open>ChangePassword\<close>: with no custom validator, an email that
  is present and well-formed, an existing password or a reset token, and a new password
  that is not empty, \<open>Validate\<close> returns \<open>ErrPasswordInvalid\<close> exactly when the new password
  fails the rule, and nil otherwise.
\<close>

theorem Validate_new_password:
  assumes "Change_CustomValidator va = None"
      and "Change_Email va \<noteq> []" "govalidator_IsEmail e (Change_Email va)"
      and "Change_ExistingPassword va \<noteq> [] \<or> Change_ResetToken va \<noteq> []"
      and "Change_NewPassword va \<noteq> []"
  shows "ChangePasswordParams_Validate e va =
           (if ValidatePassword (Change_NewPassword va) then None else Some ErrPasswordInvalid)"
  using assms by (auto simp: ChangePasswordParams_Validate_def IsNull_def)

theorem Validate_new_password_witness:
  "ChangePasswordParams_Validate (c6_env 0) (change_by_token ''ann@x.com'' ''T'' ''Abcdef1!'') =
     None \<and>
   ChangePasswordParams_Validate (c6_env 0) (change_by_token ''ann@x.com'' ''T'' ''abcdefgh'') =
     Some ErrPasswordInvalid \<and>
   ChangePasswordParams_Validate (c6_env 0)
     (change_by_token ''ann@x.com'' ''T'' ''abcdefghijklmno'') = None \<and>
   ChangePasswordParams_Validate (c6_env 0)
     (change_by_token ''ann@x.com'' ''T'' ''abcdefghijklmn'') = Some ErrPasswordInvalid"
proof -
  have a: "\<And>pw. Change_CustomValidator (change_by_token ''ann@x.com'' ''T'' pw) = None"
    and b: "\<And>pw. Change_Email (change_by_token ''ann@x.com'' ''T'' pw) \<noteq> []"
    and c: "\<And>pw. govalidator_IsEmail (c6_env 0)
                    (Change_Email (change_by_token ''ann@x.com'' ''T'' pw))"
    and d: "\<And>pw. Change_ExistingPassword (change_by_token ''ann@x.com'' ''T'' pw) \<noteq> [] \<or>
                 Change_ResetToken (change_by_token ''ann@x.com'' ''T'' pw) \<noteq> []"
    and n: "\<And>pw. Change_NewPassword (change_by_token ''ann@x.com'' ''T'' pw) = pw"
    by (simp_all add: change_by_token_def c6_env_def test_env_def test_IsEmail_def)
  have v: "ValidatePassword ''Abcdef1!''" "\<not> ValidatePassword ''abcdefgh''"
    "ValidatePassword ''abcdefghijklmno''" "\<not> ValidatePassword ''abcdefghijklmn''"
    by code_simp+
  show ?thesis
    using Validate_new_password [OF a [of "''Abcdef1!''"] b [of "''Abcdef1!''"] c [of "''Abcdef1!''"]
            d [of "''Abcdef1!''"]]
          Validate_new_password [OF a [of "''abcdefgh''"] b [of "''abcdefgh''"] c [of "''abcdefgh''"]
            d [of "''abcdefgh''"]]
          Validate_new_password [OF a [of "''abcdefghijklmno''"] b [of "''abcdefghijklmno''"] c [of "''abcdefghijklmno''"]
            d [of "''abcdefghijklmno''"]]
          Validate_new_password [OF a [of "''abcdefghijklmn''"] b [of "''abcdefghijklmn''"] c [of "''abcdefghijklmn''"]
            d [of "''abcdefghijklmn''"]]
    by (simp add: n v)
qed

theorem Validate_new_password_counterexample:
  "\<not> ValidatePassword ''abcdefgh'' \<and>
   fst (ChangePassword (c6_env 1000500) (c6_users 1000500) {}
          (change_by_token ''ann@x.com'' ''T'' ''abcdefgh'') c6_world) = Inr () \<and>
   map u_password_hash (users (db c6_world)) = [''bcrypt:old''] \<and>
   map u_password_hash (users (db (snd (ChangePassword (c6_env 1000500) (c6_users 1000500) {}
          (change_by_token ''ann@x.com'' ''T'' ''abcdefgh'') c6_world)))) = [''bcrypt:abcdefgh'']"
  by code_simp

text \<open>
  C8. Change-password and the stored credential, at two inputs. With a valid reset token
  and the \<^verbatim>\<open>Exec\<close> of the update failing (line 683), \<open>ChangePassword\<close> returns nil, the
  stored hash is the old one and the token is revoked. With no failure at all and the
  account of the email soft-deleted, the update matches no row: again nil is returned, no
  hash is stored and the token is revoked.
\<close>

theorem ChangePassword_success_without_update:
  "(fst (ChangePassword (c6_env 1000500) (c6_users 1000500) {683}
           (change_by_token ''ann@x.com'' ''T'' ''Abcdef1!'') c6_world) = Inr () \<and>
    map u_password_hash (users (db (snd (ChangePassword (c6_env 1000500) (c6_users 1000500)
           {683} (change_by_token ''ann@x.com'' ''T'' ''Abcdef1!'') c6_world)))) =
      [''bcrypt:old''] \<and>
    map pr_deleted (password_resets (db (snd (ChangePassword (c6_env 1000500)
           (c6_users 1000500) {683} (change_by_token ''ann@x.com'' ''T'' ''Abcdef1!'')
           c6_world)))) = [1]) \<and>
   (fst (ChangePassword (c6_env 1000500) (c6_users 1000500) {}
           (change_by_token ''ann@x.com'' ''T'' ''Abcdef1!'') c8_deleted_world) = Inr () \<and>
    map u_password_hash (users (db (snd (ChangePassword (c6_env 1000500) (c6_users 1000500)
           {} (change_by_token ''ann@x.com'' ''T'' ''Abcdef1!'') c8_deleted_world)))) =
      [''bcrypt:old''] \<and>
    map pr_deleted (password_resets (db (snd (ChangePassword (c6_env 1000500)
           (c6_users 1000500) {} (change_by_token ''ann@x.com'' ''T'' ''Abcdef1!'')
           c8_deleted_world)))) = [1])"
  by code_simp

text \<open>
  C9. The sign-in lookup and soft-deleted accounts, at one input. The store holds a single
  account, soft-deleted. A sign-in by its email with its password succeeds and returns
  the account; a sign-in by its username fails with \<open>ErrNotAuth\<close>: the deleted-flag test
  of the lookup covers the username branch only.
\<close>

theorem SignIn_finds_deleted_by_email:
  "map u_deleted (users (db c9_world)) = [1] \<and>
   fst (SignIn (c6_env 1000000) (c6_users 1000000) {} (sign_in ''ann@x.com'' ''pw'') c9_world) =
     Inr (scan_User ((account 1 ''ann'' ''ann@x.com'' ''pw'')\<lparr>u_deleted := 1\<rparr>),
          \<lparr>Claims_Role = 0, Claims_OrgId = 0, Claims_OrgSuspended = False\<rparr>) \<and>
   fst (SignIn (c6_env 1000000) (c6_users 1000000) {} (sign_in ''ann'' ''pw'') c9_world) =
     Inl ErrNotAuth"
  by code_simp

text \<open>
  C5. Single active reset token, at one input. The account has the username ''bob@x.com''
  and the email ''robert@x.com''. Two reset requests for ''bob@x.com'' find the account by
  its username, revoke the tokens stored under ''bob@x.com'' (none) and insert under
  ''robert@x.com'': two distinct tokens of the same email are then active. Two requests
  for ''robert@x.com'' leave the first token revoked and the second active, and a
  change-password with the first token fails with \<open>ErrInvalidResetToken\<close>.
\<close>

theorem ResetPassword_two_active_tokens:
  "map u_username (users (db c5_world)) = [''bob@x.com''] \<and>
   map u_email (users (db c5_world)) = [''robert@x.com''] \<and>
   map pr_email (password_resets (db (reset_twice ''bob@x.com''))) =
     [''robert@x.com'', ''robert@x.com''] \<and>
   map pr_deleted (password_resets (db (reset_twice ''bob@x.com''))) = [0, 0] \<and>
   distinct (map pr_reset_token (password_resets (db (reset_twice ''bob@x.com'')))) \<and>
   map pr_deleted (password_resets (db (reset_twice ''robert@x.com''))) = [1, 0] \<and>
   fst (ChangePassword c5_env c5_users {}
          (change_by_token ''robert@x.com''
             (pr_reset_token (hd (password_resets (db (reset_twice ''robert@x.com'')))))
             ''Abcdef1!'')
          (reset_twice ''robert@x.com'')) = Inl ErrInvalidResetToken"
  by code_simp

end
